theory Spec2Isabelle
  imports Main
begin

section \<open>Python string operations used by the worksheet parser\<close>

text \<open>
  Python text is modelled as \<open>string\<close>, one \<open>char\<close> per code point, for texts whose code
  points are all below 256. The operations below are the ones that
  \<^verbatim>\<open>render_html_worksheet\<close> and the \<^verbatim>\<open>Generate Worksheet\<close> branch call on \<^verbatim>\<open>str\<close>,
  with Python's tables of white space, line boundaries and upper-case forms on that range.
\<close>

type_synonym sections = "(string \<times> string list) list"

datatype py_error = KeyError | TypeError | JSONDecodeError

definition is_space :: "char \<Rightarrow> bool" where
  \<comment> \<open>the code points below 256 that \<^verbatim>\<open>str.strip()\<close> removes\<close>
  "is_space c \<longleftrightarrow>
     (let n = (of_char c :: nat)
      in (9 \<le> n \<and> n \<le> 13) \<or> (28 \<le> n \<and> n \<le> 32) \<or> n = 133 \<or> n = 160)"

definition is_linebreak :: "char \<Rightarrow> bool" where
  \<comment> \<open>the code points below 256 at which \<^verbatim>\<open>str.splitlines()\<close> breaks\<close>
  "is_linebreak c \<longleftrightarrow>
     (let n = (of_char c :: nat)
      in (10 \<le> n \<and> n \<le> 13) \<or> (28 \<le> n \<and> n \<le> 30) \<or> n = 133)"

definition strip :: "string \<Rightarrow> string" where
  "strip s = rev (dropWhile is_space (rev (dropWhile is_space s)))"

definition lstrip_chars :: "string \<Rightarrow> string \<Rightarrow> string" where
  \<comment> \<open>\<^verbatim>\<open>s.lstrip(chars)\<close>\<close>
  "lstrip_chars chars s = dropWhile (\<lambda>c. c \<in> set chars) s"

definition upper_char :: "char \<Rightarrow> string" where
  \<comment> \<open>the upper-case form of one code point: a to z and the accented letters move down by 32,
      the sharp s (223) becomes two letters; the micro sign (181) and the y with diaeresis
      (255) have upper-case forms above 255 and are kept, which no header test can see\<close>
  "upper_char c =
     (let n = (of_char c :: nat)
      in if 97 \<le> n \<and> n \<le> 122 then [char_of (n - 32)]
         else if n = 223 then ''SS''
         else if 224 \<le> n \<and> n \<le> 254 \<and> n \<noteq> 247 then [char_of (n - 32)]
         else [c])"

definition upper :: "string \<Rightarrow> string" where
  \<comment> \<open>\<^verbatim>\<open>s.upper()\<close>\<close>
  "upper s = concat (map upper_char s)"

definition startswith :: "string \<Rightarrow> string \<Rightarrow> bool" where
  \<comment> \<open>\<^verbatim>\<open>s.startswith(p)\<close>\<close>
  "startswith s p \<longleftrightarrow> take (length p) s = p"

fun splitlines_from :: "string \<Rightarrow> string \<Rightarrow> string list" where
  "splitlines_from cur [] = (if cur = [] then [] else [cur])"
| "splitlines_from cur [c] =
     (if is_linebreak c then [cur] else [cur @ [c]])"
| "splitlines_from cur (c # d # cs) =
     (if c = CHR 0x0D \<and> d = CHR 0x0A then cur # splitlines_from [] cs
      else if is_linebreak c then cur # splitlines_from [] (d # cs)
      else splitlines_from (cur @ [c]) (d # cs))"

definition splitlines :: "string \<Rightarrow> string list" where
  \<comment> \<open>\<^verbatim>\<open>text.splitlines()\<close>: a carriage return followed by a line feed is one break\<close>
  "splitlines s = splitlines_from [] s"

definition split_colon_last :: "string \<Rightarrow> string" where
  \<comment> \<open>\<^verbatim>\<open>l.split(":", 1)[-1]\<close>: the text after the first colon, the whole
      line when it has none\<close>
  "split_colon_last l =
     (if CHR '':'' \<in> set l then tl (dropWhile (\<lambda>c. c \<noteq> CHR '':'') l) else l)"

definition header_value :: "string \<Rightarrow> string" where
  \<comment> \<open>\<^verbatim>\<open>l.split(":", 1)[-1].strip()\<close>\<close>
  "header_value l = strip (split_colon_last l)"

definition digit_char :: "nat \<Rightarrow> char" where
  "digit_char d = char_of (48 + d)"

function str_nat :: "nat \<Rightarrow> string" where
  "str_nat n = (if n < 10 then [digit_char n] else str_nat (n div 10) @ [digit_char (n mod 10)])"
  by pat_completeness auto
termination
  by (relation "measure id") auto

section \<open>Ordered dictionaries\<close>

text \<open>
  A Python \<^verbatim>\<open>dict\<close> keeps insertion order; \<^verbatim>\<open>sections\<close> is an association list
  with one entry per key.
\<close>

fun dict_get :: "sections \<Rightarrow> string \<Rightarrow> string list option" where
  "dict_get [] k = None"
| "dict_get ((k', v) # d) k = (if k' = k then Some v else dict_get d k)"

fun dict_set :: "string \<Rightarrow> string list \<Rightarrow> sections \<Rightarrow> sections" where
  \<comment> \<open>\<^verbatim>\<open>d[k] = v\<close>: replaces in place, or appends a new key at the end\<close>
  "dict_set k v [] = [(k, v)]"
| "dict_set k v ((k', v') # d) =
     (if k' = k then (k, v) # d else (k', v') # dict_set k v d)"

definition dict_append :: "string \<Rightarrow> string \<Rightarrow> sections \<Rightarrow> py_error + sections" where
  \<comment> \<open>\<^verbatim>\<open>d[k].append(x)\<close>: raises KeyError when the key is missing\<close>
  "dict_append k x d =
     (case dict_get d k of
        None \<Rightarrow> Inl KeyError
      | Some v \<Rightarrow> Inr (dict_set k (v @ [x]) d))"

definition setdefault_append :: "string \<Rightarrow> string \<Rightarrow> sections \<Rightarrow> sections" where
  \<comment> \<open>\<^verbatim>\<open>d.setdefault(k, []).append(x)\<close>\<close>
  "setdefault_append k x d =
     (case dict_get d k of
        None \<Rightarrow> dict_set k [x] d
      | Some v \<Rightarrow> dict_set k (v @ [x]) d)"

definition total_questions :: "sections \<Rightarrow> nat" where
  \<comment> \<open>\<^verbatim>\<open>sum(len(v) for v in sections.values())\<close>\<close>
  "total_questions d = sum_list (map (\<lambda>(k, v). length v) d)"

section \<open>The worksheet parser of \<^verbatim>\<open>render_html_worksheet\<close>\<close>

record worksheet =
  title :: string
  instructions :: string
  tips :: string
  sections :: sections

record pstate = worksheet +
  current_key :: "string option"

definition bullet_chars :: string where
  "bullet_chars = ''-*1234567890. ''"

definition extra_practice :: string where
  "extra_practice = ''Extra Practice''"

definition default_instructions :: string where
  "default_instructions = ''Read each question together and encourage pointing and counting.''"

definition default_tips :: string where
  "default_tips = ''Celebrate effort and keep sessions short and fun.''"

definition right_quote :: string where
  \<comment> \<open>the source writes U+2019 in the default title; it is kept as its three UTF-8 bytes\<close>
  "right_quote = [CHR 0xE2, CHR 0x80, CHR 0x99]"

definition default_title :: "string \<Rightarrow> string" where
  \<comment> \<open>\<^verbatim>\<open>f"{child}\<dots>s Worksheet"\<close>\<close>
  "default_title child = child @ right_quote @ ''s Worksheet''"

definition filler :: "nat \<Rightarrow> string" where
  \<comment> \<open>\<^verbatim>\<open>f"Practice question {n}: Draw and count stars or cars."\<close>\<close>
  "filler n = ''Practice question '' @ str_nat n @ '': Draw and count stars or cars.''"

definition open_section :: "string \<Rightarrow> pstate \<Rightarrow> pstate" where
  \<comment> \<open>\<^verbatim>\<open>current_key = k; sections[current_key] = []\<close>\<close>
  "open_section k s = s\<lparr>sections := dict_set k [] (sections s), current_key := Some k\<rparr>"

definition parse_line :: "pstate \<Rightarrow> string \<Rightarrow> py_error + pstate" where
  "parse_line s l =
     (let u = upper l in
      if startswith u ''TITLE'' then Inr (s\<lparr>title := header_value l\<rparr>)
      else if startswith u ''INSTRUCTIONS'' then Inr (s\<lparr>instructions := header_value l\<rparr>)
      else if startswith u ''PARENT TIPS'' then Inr (s\<lparr>tips := header_value l\<rparr>)
      else if startswith u ''PART A'' then Inr (open_section ''Part A'' s)
      else if startswith u ''PART B'' then Inr (open_section ''Part B'' s)
      else if startswith u ''PART C'' then Inr (open_section ''Part C'' s)
      else (case current_key s of
              None \<Rightarrow> Inr s
            | Some k \<Rightarrow>
                (let cleaned = strip (lstrip_chars bullet_chars l) in
                 if cleaned \<noteq> [] then
                   (case dict_append k cleaned (sections s) of
                      Inl e \<Rightarrow> Inl e
                    | Inr d \<Rightarrow> Inr (s\<lparr>sections := d\<rparr>))
                 else Inr s)))"

fun parse_lines :: "pstate \<Rightarrow> string list \<Rightarrow> py_error + pstate" where
  "parse_lines s [] = Inr s"
| "parse_lines s (l # ls) =
     (case parse_line s l of Inl e \<Rightarrow> Inl e | Inr s' \<Rightarrow> parse_lines s' ls)"

definition text_lines :: "string \<Rightarrow> string list" where
  \<comment> \<open>\<^verbatim>\<open>[l.strip() for l in text.splitlines() if l.strip()]\<close>\<close>
  "text_lines text = map strip (filter (\<lambda>l. strip l \<noteq> []) (splitlines text))"

definition initial_state :: "string \<Rightarrow> pstate" where
  "initial_state child =
     \<lparr>title = default_title child, instructions = [], tips = [], sections = [],
      current_key = None\<rparr>"

function fill_questions :: "nat \<Rightarrow> sections \<Rightarrow> sections" where
  \<comment> \<open>the \<^verbatim>\<open>while total < 12\<close> loop\<close>
  "fill_questions tot d =
     (if tot < 12
      then fill_questions (tot + 1) (setdefault_append extra_practice (filler (tot + 1)) d)
      else d)"
  by pat_completeness auto
termination
  by (relation "measure (\<lambda>(tot, d). 12 - tot)") auto

definition finish :: "pstate \<Rightarrow> worksheet" where
  \<comment> \<open>the fallbacks and the backfill that follow the line loop\<close>
  "finish s =
     \<lparr>title = title s,
      instructions = (if instructions s = [] then default_instructions else instructions s),
      tips = (if tips s = [] then default_tips else tips s),
      sections = fill_questions (total_questions (sections s)) (sections s)\<rparr>"

definition render_html_worksheet :: "string \<Rightarrow> string \<Rightarrow> py_error + worksheet" where
  \<comment> \<open>the record that \<^verbatim>\<open>render_html_worksheet(text, child)\<close> hands to \<^verbatim>\<open>html_template\<close>\<close>
  "render_html_worksheet text child =
     (case parse_lines (initial_state child) (text_lines text) of
        Inl e \<Rightarrow> Inl e
      | Inr s \<Rightarrow> Inr (finish s))"

section \<open>The parser of the \<^verbatim>\<open>Generate Worksheet\<close> branch\<close>

text \<open>
  The user-interface branch parses the model's reply with its own copy of the loop: the three
  parts exist from the start, lines are not trimmed before the header tests, a part header
  only moves the cursor, and no fallback sentence is applied.
\<close>

definition straight_title :: "string \<Rightarrow> string" where
  \<comment> \<open>\<^verbatim>\<open>f"{child}'s Worksheet"\<close>\<close>
  "straight_title child = child @ [CHR 0x27] @ ''s Worksheet''"

definition ui_initial_state :: "string \<Rightarrow> pstate" where
  "ui_initial_state child =
     \<lparr>title = straight_title child, instructions = [], tips = [],
      sections = [(''Part A'', []), (''Part B'', []), (''Part C'', [])],
      current_key = None\<rparr>"

definition ui_parse_line :: "pstate \<Rightarrow> string \<Rightarrow> py_error + pstate" where
  "ui_parse_line s line =
     (let u = upper line in
      if startswith u ''TITLE'' then Inr (s\<lparr>title := header_value line\<rparr>)
      else if startswith u ''INSTRUCTIONS'' then Inr (s\<lparr>instructions := header_value line\<rparr>)
      else if startswith u ''PARENT TIPS'' then Inr (s\<lparr>tips := header_value line\<rparr>)
      else if startswith u ''PART A'' then Inr (s\<lparr>current_key := Some ''Part A''\<rparr>)
      else if startswith u ''PART B'' then Inr (s\<lparr>current_key := Some ''Part B''\<rparr>)
      else if startswith u ''PART C'' then Inr (s\<lparr>current_key := Some ''Part C''\<rparr>)
      else (case current_key s of
              None \<Rightarrow> Inr s
            | Some k \<Rightarrow>
                if strip line \<noteq> [] then
                  (case dict_append k (strip (lstrip_chars bullet_chars line)) (sections s) of
                     Inl e \<Rightarrow> Inl e
                   | Inr d \<Rightarrow> Inr (s\<lparr>sections := d\<rparr>))
                else Inr s))"

fun ui_parse_lines :: "pstate \<Rightarrow> string list \<Rightarrow> py_error + pstate" where
  "ui_parse_lines s [] = Inr s"
| "ui_parse_lines s (l # ls) =
     (case ui_parse_line s l of Inl e \<Rightarrow> Inl e | Inr s' \<Rightarrow> ui_parse_lines s' ls)"

definition ui_finish :: "pstate \<Rightarrow> worksheet" where
  "ui_finish s =
     \<lparr>title = title s, instructions = instructions s, tips = tips s,
      sections = fill_questions (total_questions (sections s)) (sections s)\<rparr>"

definition generate_worksheet :: "string \<Rightarrow> string \<Rightarrow> py_error + worksheet" where
  \<comment> \<open>the record that the \<^verbatim>\<open>Generate Worksheet\<close> branch hands to \<^verbatim>\<open>html_template\<close>\<close>
  "generate_worksheet bot_text child =
     (case ui_parse_lines (ui_initial_state child) (splitlines bot_text) of
        Inl e \<Rightarrow> Inl e
      | Inr s \<Rightarrow> Inr (ui_finish s))"

section \<open>The session history store\<close>

text \<open>
  \<^verbatim>\<open>chat_history_store\<close> is the process-wide dictionary; the files are the texts that
  \<^verbatim>\<open>open(filename).read()\<close> returns. The JSON codec belongs to the Python library, so
  \<open>loads\<close> and \<open>dumps\<close> are parameters of the two operations. A history is the list of its
  messages, and \<^verbatim>\<open>add_message\<close> appends to it. An exception leaves the world as it was
  when it was raised, so a failure carries the world too.
\<close>

datatype json =
  JNull | JBool bool | JNum int | JStr string | JArr "json list" | JObj "(string \<times> json) list"

datatype message =
  PydanticV2 json   \<comment> \<open>an object with \<^verbatim>\<open>model_dump()\<close>, and what it returns\<close>
| PydanticV1 json   \<comment> \<open>an object with \<^verbatim>\<open>dict()\<close> only, and what it returns\<close>
| Plain json        \<comment> \<open>anything else: a value that was loaded from the file\<close>

record world =
  chat_history_store :: "string \<rightharpoonup> message list"
  files :: "string \<rightharpoonup> string"

type_synonym 'a result = "(py_error \<times> world) + ('a \<times> world)"

definition history_filename :: "string \<Rightarrow> string" where
  "history_filename session_id = session_id @ ''_history.json''"

definition last_n :: "nat \<Rightarrow> 'a list \<Rightarrow> 'a list" where
  \<comment> \<open>\<^verbatim>\<open>xs[-n:]\<close> for positive \<open>n\<close>\<close>
  "last_n n xs = drop (length xs - n) xs"

definition hydrate :: "json \<Rightarrow> py_error + message list" where
  \<comment> \<open>\<^verbatim>\<open>for msg in messages[-20:]: history.add_message(msg)\<close>; a string is sliced and
      iterated by character, the slice of any other value raises (TypeError, or KeyError
      for an object on recent interpreters; one constructor stands for both)\<close>
  "hydrate v =
     (case v of
        JArr ms \<Rightarrow> Inr (map Plain (last_n 20 ms))
      | JStr cs \<Rightarrow> Inr (map (\<lambda>c. Plain (JStr [c])) (last_n 20 cs))
      | _ \<Rightarrow> Inl TypeError)"

definition remember :: "string \<Rightarrow> message list \<Rightarrow> world \<Rightarrow> message list result" where
  \<comment> \<open>\<^verbatim>\<open>chat_history_store[session_id] = history; return chat_history_store[session_id]\<close>\<close>
  "remember session_id history w =
     Inr (history, w\<lparr>chat_history_store := (chat_history_store w)(session_id \<mapsto> history)\<rparr>)"

definition get_session_history ::
  "(string \<Rightarrow> json option) \<Rightarrow> string \<Rightarrow> world \<Rightarrow> message list result" where
  "get_session_history loads session_id w =
     (case chat_history_store w session_id of
        Some history \<Rightarrow> Inr (history, w)
      | None \<Rightarrow>
          (case files w (history_filename session_id) of
             None \<Rightarrow> remember session_id [] w
           | Some raw \<Rightarrow>
               (let content = strip raw in
                if content = [] then remember session_id [] w
                else (case loads content of
                        None \<Rightarrow> Inl (JSONDecodeError, w)
                      | Some v \<Rightarrow>
                          (case hydrate v of
                             Inl e \<Rightarrow> Inl (e, w)
                           | Inr history \<Rightarrow> remember session_id history w)))))"

definition serialize_message :: "message \<Rightarrow> json" where
  "serialize_message m = (case m of PydanticV2 d \<Rightarrow> d | PydanticV1 d \<Rightarrow> d | Plain v \<Rightarrow> v)"

definition save_session_history ::
  "(json \<Rightarrow> string) \<Rightarrow> string \<Rightarrow> world \<Rightarrow> unit result" where
  "save_session_history dumps session_id w =
     (case chat_history_store w session_id of
        None \<Rightarrow> Inl (KeyError, w)
      | Some history \<Rightarrow>
          Inr ((), w\<lparr>files := (files w)(history_filename session_id \<mapsto>
                       dumps (JArr (map serialize_message history)))\<rparr>))"

section \<open>Concrete inputs used in worked examples\<close>

definition reject_all :: "string \<Rightarrow> json option" where
  \<comment> \<open>a decoder that accepts nothing; a blank text is rejected by every JSON decoder\<close>
  "reject_all s = None"

definition empty_world :: world where
  "empty_world = \<lparr>chat_history_store = Map.empty, files = Map.empty\<rparr>"

definition blank_file_world :: world where
  \<comment> \<open>a new process whose history file holds a single space\<close>
  "blank_file_world =
     \<lparr>chat_history_store = Map.empty,
      files = [history_filename ''worksheet_session'' \<mapsto> '' '']\<rparr>"





definition nl :: string where "nl = [CHR 0x0A]"



definition repeated_part :: string where
  "repeated_part = ''PART A'' @ nl @ ''1. One'' @ nl @ ''PART A'' @ nl @ ''2. Two''"

definition bare_number :: string where
  "bare_number = ''PART A'' @ nl @ ''1.''"

definition three_headers :: string where
  "three_headers = ''TITLE: First'' @ nl @ ''INSTRUCTIONS: Count slowly'' @ nl @ ''PART A'' @ nl
     @ ''Title:  Space Math '' @ nl @ ''1. Count 3 rockets'' @ nl @ ''PARENT TIPS: Go slow''"

section \<open>Predicates used to state the properties\<close>

definition header_line :: "string \<Rightarrow> bool" where
  \<comment> \<open>the line starts with one of the six header words, whatever its case\<close>
  "header_line l \<longleftrightarrow>
     (let u = upper l in
      startswith u ''TITLE'' \<or> startswith u ''INSTRUCTIONS'' \<or> startswith u ''PARENT TIPS''
      \<or> startswith u ''PART A'' \<or> startswith u ''PART B'' \<or> startswith u ''PART C'')"

definition parser_inv :: "pstate \<Rightarrow> bool" where
  \<comment> \<open>the cursor names an existing section, and the reserved section is not yet there\<close>
  "parser_inv s \<longleftrightarrow>
     (\<forall>k. current_key s = Some k \<longrightarrow> dict_get (sections s) k \<noteq> None)
     \<and> dict_get (sections s) extra_practice = None"


definition lines_with :: "string \<Rightarrow> string list \<Rightarrow> string list" where
  \<comment> \<open>the lines that start with the header word \<open>p\<close>\<close>
  "lines_with p ls = filter (\<lambda>l. startswith (upper l) p) ls"

definition text_after_first_colon :: "string \<Rightarrow> string" where
  \<comment> \<open>the spec's words: the text after the first colon\<close>
  "text_after_first_colon l = drop (Suc (length (takeWhile (\<lambda>c. c \<noteq> CHR '':'') l))) l"

definition scalar_header :: "string \<Rightarrow> bool" where
  \<comment> \<open>the line starts with TITLE, INSTRUCTIONS or PARENT TIPS, whatever its case\<close>
  "scalar_header l \<longleftrightarrow>
     (let u = upper l in
      startswith u ''TITLE'' \<or> startswith u ''INSTRUCTIONS'' \<or> startswith u ''PARENT TIPS'')"

section \<open>Properties of the worksheet parser\<close>

declare fill_questions.simps [simp del] str_nat.simps [simp del]

lemma startswith_Nil: "startswith s []"
  by (simp add: startswith_def)

lemma startswith_Cons: "startswith s (c # p) \<longleftrightarrow> (\<exists>t. s = c # t \<and> startswith t p)"
  by (cases s) (auto simp: startswith_def)

lemma dict_get_set_same: "dict_get (dict_set k v d) k = Some v"
  by (induction d) auto

lemma dict_get_set_other: "k' \<noteq> k \<Longrightarrow> dict_get (dict_set k v d) k' = dict_get d k'"
  by (induction d) auto










lemma fill_questions_enough: "\<not> tot < 12 \<Longrightarrow> fill_questions tot d = d"
  by (subst fill_questions.simps) simp

lemma part_prefix_not_scalar:
  assumes "startswith u ''PART A'' \<or> startswith u ''PART B'' \<or> startswith u ''PART C''"
  shows "\<not> startswith u ''TITLE'' \<and> \<not> startswith u ''INSTRUCTIONS''
         \<and> \<not> startswith u ''PARENT TIPS''"
  using assms by (auto simp: startswith_Cons)

lemma part_prefix_exclusive:
  "startswith u ''PART B'' \<Longrightarrow> \<not> startswith u ''PART A''"
  "startswith u ''PART C'' \<Longrightarrow> \<not> startswith u ''PART A'' \<and> \<not> startswith u ''PART B''"
  by (auto simp: startswith_Cons)

lemma scalar_prefix_exclusive:
  "startswith u ''INSTRUCTIONS'' \<Longrightarrow> \<not> startswith u ''TITLE''"
  "startswith u ''PARENT TIPS'' \<Longrightarrow> \<not> startswith u ''TITLE'' \<and> \<not> startswith u ''INSTRUCTIONS''"
  by (auto simp: startswith_Cons)

lemma parse_line_title:
  "startswith (upper l) ''TITLE'' \<Longrightarrow> parse_line s l = Inr (s\<lparr>title := header_value l\<rparr>)"
  by (simp add: parse_line_def)

lemma parse_line_instructions:
  "startswith (upper l) ''INSTRUCTIONS'' \<Longrightarrow>
     parse_line s l = Inr (s\<lparr>instructions := header_value l\<rparr>)"
  using scalar_prefix_exclusive(1) [of "upper l"] by (simp add: parse_line_def)

lemma parse_line_tips:
  "startswith (upper l) ''PARENT TIPS'' \<Longrightarrow> parse_line s l = Inr (s\<lparr>tips := header_value l\<rparr>)"
  using scalar_prefix_exclusive(2) [of "upper l"] by (simp add: parse_line_def)

lemma parse_line_part_a:
  "startswith (upper l) ''PART A'' \<Longrightarrow> parse_line s l = Inr (open_section ''Part A'' s)"
  using part_prefix_not_scalar [of "upper l"] by (simp add: parse_line_def)

lemma parse_line_part_b:
  "startswith (upper l) ''PART B'' \<Longrightarrow> parse_line s l = Inr (open_section ''Part B'' s)"
  using part_prefix_not_scalar [of "upper l"] part_prefix_exclusive(1) [of "upper l"]
  by (simp add: parse_line_def)

lemma parse_line_part_c:
  "startswith (upper l) ''PART C'' \<Longrightarrow> parse_line s l = Inr (open_section ''Part C'' s)"
  using part_prefix_not_scalar [of "upper l"] part_prefix_exclusive(2) [of "upper l"]
  by (simp add: parse_line_def)

lemma parse_line_question:
  "\<not> header_line l \<Longrightarrow>
     parse_line s l =
       (case current_key s of
          None \<Rightarrow> Inr s
        | Some k \<Rightarrow>
            (let cleaned = strip (lstrip_chars bullet_chars l) in
             if cleaned \<noteq> [] then
               (case dict_append k cleaned (sections s) of
                  Inl e \<Rightarrow> Inl e
                | Inr d \<Rightarrow> Inr (s\<lparr>sections := d\<rparr>))
             else Inr s))"
  by (simp add: parse_line_def header_line_def Let_def)

lemma parser_inv_open_section:
  assumes "parser_inv s" and "k \<noteq> extra_practice"
  shows "parser_inv (open_section k s)"
  using assms
  by (auto simp: parser_inv_def open_section_def dict_get_set_same dict_get_set_other)

lemma part_names_not_extra:
  "''Part A'' \<noteq> extra_practice" "''Part B'' \<noteq> extra_practice" "''Part C'' \<noteq> extra_practice"
  by (simp_all add: extra_practice_def)

lemma parse_line_inv:
  assumes "parser_inv s"
  shows "\<exists>s'. parse_line s l = Inr s' \<and> parser_inv s'"
proof (cases "header_line l")
  case True
  then consider "startswith (upper l) ''TITLE''" | "startswith (upper l) ''INSTRUCTIONS''"
    | "startswith (upper l) ''PARENT TIPS''" | "startswith (upper l) ''PART A''"
    | "startswith (upper l) ''PART B''" | "startswith (upper l) ''PART C''"
    by (auto simp: header_line_def Let_def)
  then show ?thesis
  proof cases
    case 1 with assms show ?thesis by (simp add: parse_line_title parser_inv_def)
  next
    case 2 with assms show ?thesis by (simp add: parse_line_instructions parser_inv_def)
  next
    case 3 with assms show ?thesis by (simp add: parse_line_tips parser_inv_def)
  next
    case 4 with assms show ?thesis
      by (simp add: parse_line_part_a parser_inv_open_section part_names_not_extra)
  next
    case 5 with assms show ?thesis
      by (simp add: parse_line_part_b parser_inv_open_section part_names_not_extra)
  next
    case 6 with assms show ?thesis
      by (simp add: parse_line_part_c parser_inv_open_section part_names_not_extra)
  qed
next
  case False
  show ?thesis
  proof (cases "current_key s")
    case None
    with False assms show ?thesis by (simp add: parse_line_question)
  next
    case (Some k)
    with assms obtain v where v: "dict_get (sections s) k = Some v"
      by (auto simp: parser_inv_def)
    with assms have ne: "extra_practice \<noteq> k"
      by (auto simp: parser_inv_def)
    from v ne False Some assms show ?thesis
      by (auto simp: parse_line_question Let_def dict_append_def parser_inv_def
            dict_get_set_same dict_get_set_other)
  qed
qed

lemma parse_lines_inv:
  "parser_inv s \<Longrightarrow> \<exists>s'. parse_lines s ls = Inr s' \<and> parser_inv s'"
proof (induction ls arbitrary: s)
  case Nil
  then show ?case by simp
next
  case (Cons l ls)
  from parse_line_inv [OF Cons.prems, of l]
  obtain s1 where "parse_line s l = Inr s1" "parser_inv s1" by blast
  with Cons.IH [of s1] show ?case by simp
qed

lemma parser_inv_initial: "parser_inv (initial_state child)"
  by (simp add: parser_inv_def initial_state_def)






lemma parse_line_fields:
  assumes "parse_line s l = Inr s'"
  shows "title s' = (if startswith (upper l) ''TITLE'' then header_value l else title s)"
    and "instructions s' =
           (if startswith (upper l) ''INSTRUCTIONS'' then header_value l else instructions s)"
    and "tips s' = (if startswith (upper l) ''PARENT TIPS'' then header_value l else tips s)"
  using assms scalar_prefix_exclusive [of "upper l"] part_prefix_not_scalar [of "upper l"]
  by (auto simp: parse_line_def Let_def open_section_def
           split: if_splits option.splits sum.splits)

lemma last_lines_with_Cons:
  "lines_with p (l # ls) =
     (if startswith (upper l) p then l # lines_with p ls else lines_with p ls)"
  by (simp add: lines_with_def)

lemma parse_lines_fields:
  assumes "parse_lines s ls = Inr s'"
  shows "title s' = (if lines_with ''TITLE'' ls = [] then title s
                     else header_value (last (lines_with ''TITLE'' ls)))
       \<and> instructions s' = (if lines_with ''INSTRUCTIONS'' ls = [] then instructions s
                     else header_value (last (lines_with ''INSTRUCTIONS'' ls)))
       \<and> tips s' = (if lines_with ''PARENT TIPS'' ls = [] then tips s
                     else header_value (last (lines_with ''PARENT TIPS'' ls)))"
  using assms
proof (induction ls arbitrary: s)
  case Nil
  then show ?case by (simp add: lines_with_def)
next
  case (Cons l ls)
  then obtain s1 where s1: "parse_line s l = Inr s1" "parse_lines s1 ls = Inr s'"
    by (auto split: sum.splits)
  from Cons.IH [OF s1(2)] parse_line_fields [OF s1(1)] show ?case
    by (simp add: last_lines_with_Cons)
qed

lemma scalar_header_keeps_cursor:
  assumes "scalar_header l"
  shows "\<exists>s'. parse_line s l = Inr s' \<and> current_key s' = current_key s
              \<and> sections s' = sections s"
  using assms scalar_prefix_exclusive [of "upper l"]
  by (auto simp: scalar_header_def parse_line_def Let_def)

lemma header_value_cases:
  "header_value l =
     (if CHR '':'' \<in> set l then strip (text_after_first_colon l) else strip l)"
  by (simp add: header_value_def split_colon_last_def text_after_first_colon_def
        dropWhile_eq_drop drop_Suc tl_drop)

lemma header_value_no_colon: "CHR '':'' \<notin> set l \<Longrightarrow> header_value l = strip l"
  by (simp add: header_value_def split_colon_last_def)

lemma ui_parse_line_part_a:
  "startswith (upper l) ''PART A'' \<Longrightarrow> ui_parse_line s l = Inr (s\<lparr>current_key := Some ''Part A''\<rparr>)"
  using part_prefix_not_scalar [of "upper l"] by (simp add: ui_parse_line_def)

lemma ui_parse_line_part_b:
  "startswith (upper l) ''PART B'' \<Longrightarrow> ui_parse_line s l = Inr (s\<lparr>current_key := Some ''Part B''\<rparr>)"
  using part_prefix_not_scalar [of "upper l"] part_prefix_exclusive(1) [of "upper l"]
  by (simp add: ui_parse_line_def)

lemma ui_parse_line_part_c:
  "startswith (upper l) ''PART C'' \<Longrightarrow> ui_parse_line s l = Inr (s\<lparr>current_key := Some ''Part C''\<rparr>)"
  using part_prefix_not_scalar [of "upper l"] part_prefix_exclusive(2) [of "upper l"]
  by (simp add: ui_parse_line_def)

lemma ui_parse_line_scalar:
  "startswith (upper l) ''TITLE'' \<Longrightarrow> ui_parse_line s l = Inr (s\<lparr>title := header_value l\<rparr>)"
  "startswith (upper l) ''INSTRUCTIONS'' \<Longrightarrow>
     ui_parse_line s l = Inr (s\<lparr>instructions := header_value l\<rparr>)"
  "startswith (upper l) ''PARENT TIPS'' \<Longrightarrow> ui_parse_line s l = Inr (s\<lparr>tips := header_value l\<rparr>)"
  using scalar_prefix_exclusive [of "upper l"] by (simp_all add: ui_parse_line_def)

lemma open_section_resets:
  "dict_get (sections (open_section k s)) k = Some []"
  by (simp add: open_section_def dict_get_set_same)

lemma question_line_on_cursor:
  assumes "\<not> header_line l" and "current_key s = Some k" and "dict_get (sections s) k = Some v"
  shows "parse_line s l =
           (if strip (lstrip_chars bullet_chars l) = [] then Inr s
            else Inr (s\<lparr>sections := dict_set k (v @ [strip (lstrip_chars bullet_chars l)])
                                     (sections s)\<rparr>))"
  using assms by (simp add: parse_line_question Let_def dict_append_def)

lemma question_line_without_cursor:
  "\<not> header_line l \<Longrightarrow> current_key s = None \<Longrightarrow> parse_line s l = Inr s"
  by (simp add: parse_line_question)

subsection \<open>The claims about the parser\<close>



text \<open>
  C3, as stated, fails on a TITLE line without a colon: \<^verbatim>\<open>split(":", 1)[-1]\<close> is then the
  whole line, so the title becomes the line itself instead of staying as it was.
\<close>

theorem title_without_colon:
  "CHR '':'' \<notin> set ''TITLE Space Math'' \<and>
   startswith (upper ''TITLE Space Math'') ''TITLE'' \<and>
   map_sum id title (parse_line (initial_state ''Landon'') ''TITLE Space Math'')
     = Inr ''TITLE Space Math'' \<and>
   title (initial_state ''Landon'') \<noteq> ''TITLE Space Math'' \<and>
   map_sum id title (render_html_worksheet ''TITLE Space Math'' ''Landon'')
     = Inr ''TITLE Space Math'' \<and>
   map_sum id title (generate_worksheet ''TITLE Space Math'' ''Landon'')
     = Inr ''TITLE Space Math''"
  by code_simp

text \<open>
  C3, amended. For a line without a colon: when it starts with TITLE, INSTRUCTIONS or
  PARENT TIPS, the corresponding field is set to the whole trimmed line; when it starts with
  PART A, PART B or PART C, the cursor is switched to that part. Both loops agree on this.
\<close>

theorem header_without_colon:
  assumes "CHR '':'' \<notin> set l"
  shows "(startswith (upper l) ''TITLE'' \<longrightarrow>
            parse_line s l = Inr (s\<lparr>title := strip l\<rparr>)
            \<and> ui_parse_line s l = Inr (s\<lparr>title := strip l\<rparr>))
       \<and> (startswith (upper l) ''INSTRUCTIONS'' \<longrightarrow>
            parse_line s l = Inr (s\<lparr>instructions := strip l\<rparr>)
            \<and> ui_parse_line s l = Inr (s\<lparr>instructions := strip l\<rparr>))
       \<and> (startswith (upper l) ''PARENT TIPS'' \<longrightarrow>
            parse_line s l = Inr (s\<lparr>tips := strip l\<rparr>)
            \<and> ui_parse_line s l = Inr (s\<lparr>tips := strip l\<rparr>))
       \<and> (startswith (upper l) ''PART A'' \<longrightarrow>
            parse_line s l = Inr (open_section ''Part A'' s)
            \<and> current_key (open_section ''Part A'' s) = Some ''Part A''
            \<and> ui_parse_line s l = Inr (s\<lparr>current_key := Some ''Part A''\<rparr>))
       \<and> (startswith (upper l) ''PART B'' \<longrightarrow>
            parse_line s l = Inr (open_section ''Part B'' s)
            \<and> current_key (open_section ''Part B'' s) = Some ''Part B''
            \<and> ui_parse_line s l = Inr (s\<lparr>current_key := Some ''Part B''\<rparr>))
       \<and> (startswith (upper l) ''PART C'' \<longrightarrow>
            parse_line s l = Inr (open_section ''Part C'' s)
            \<and> current_key (open_section ''Part C'' s) = Some ''Part C''
            \<and> ui_parse_line s l = Inr (s\<lparr>current_key := Some ''Part C''\<rparr>))"
  using header_value_no_colon [OF assms]
  by (simp add: parse_line_title parse_line_instructions parse_line_tips
        parse_line_part_a parse_line_part_b parse_line_part_c
        ui_parse_line_scalar ui_parse_line_part_a ui_parse_line_part_b ui_parse_line_part_c
        open_section_def)

theorem header_without_colon_witness:
  "CHR '':'' \<notin> set ''TITLE Space Math'' \<and> startswith (upper ''TITLE Space Math'') ''TITLE''
   \<and> parse_line (initial_state ''Landon'') ''TITLE Space Math''
       = Inr ((initial_state ''Landon'')\<lparr>title := ''TITLE Space Math''\<rparr>)
   \<and> CHR '':'' \<notin> set ''Part b'' \<and> startswith (upper ''Part b'') ''PART B''
   \<and> parse_line (initial_state ''Landon'') ''Part b''
       = Inr (open_section ''Part B'' (initial_state ''Landon''))
   \<and> ui_parse_line (ui_initial_state ''Landon'') ''Part b''
       = Inr ((ui_initial_state ''Landon'')\<lparr>current_key := Some ''Part B''\<rparr>)"
proof -
  have a: "CHR '':'' \<notin> set ''TITLE Space Math''" by simp
  have b: "startswith (upper ''TITLE Space Math'') ''TITLE''" by code_simp
  have c: "strip ''TITLE Space Math'' = ''TITLE Space Math''" by code_simp
  have d: "CHR '':'' \<notin> set ''Part b''" by simp
  have e: "startswith (upper ''Part b'') ''PART B''" by code_simp
  from header_without_colon [OF a, of "initial_state ''Landon''"]
    header_without_colon [OF d, of "initial_state ''Landon''"]
    header_without_colon [OF d, of "ui_initial_state ''Landon''"]
    a b c d e
  show ?thesis by simp
qed

text \<open>
  C4 on the input \<open>PART A / 1. One / PART A / 2. Two\<close>: \<^verbatim>\<open>render_html_worksheet\<close>
  assigns a new empty list at the second header, so Part A ends with \<open>Two\<close> alone, while the
  loop of the \<^verbatim>\<open>Generate Worksheet\<close> branch keeps the collected list, as the claim says.
\<close>

theorem repeated_part_header:
  "map_sum id (\<lambda>w. dict_get (sections w) ''Part A'') (render_html_worksheet repeated_part ''Landon'')
     = Inr (Some [''Two'']) \<and>
   map_sum id (\<lambda>w. dict_get (sections w) ''Part A'') (generate_worksheet repeated_part ''Landon'')
     = Inr (Some [''One'', ''Two''])"
  by code_simp

text \<open>
  C5, as stated, fails on the text \<open>INSTRUCTIONS:\<close>: the trimmed text after the colon is empty,
  and the record carries the fixed fallback sentence instead.
\<close>

theorem empty_instructions_header:
  "lines_with ''INSTRUCTIONS'' (text_lines ''INSTRUCTIONS:'') = [''INSTRUCTIONS:''] \<and>
   strip (text_after_first_colon ''INSTRUCTIONS:'') = [] \<and>
   map_sum id instructions (render_html_worksheet ''INSTRUCTIONS:'' ''Landon'')
     = Inr ''Read each question together and encourage pointing and counting.''"
  by code_simp

text \<open>
  C5, amended. The line loop always ends without an error, and in the record: the title is
  the header value of the last TITLE line, when there is one; the instructions (the tips) are
  the header value of the last INSTRUCTIONS (PARENT TIPS) line, or the fixed fallback
  sentence when that value is empty. The header value of a line is the trimmed text after its
  first colon, or the whole trimmed line when it has no colon. A TITLE, INSTRUCTIONS or
  PARENT TIPS line leaves the cursor and the sections as they were.
\<close>

theorem scalar_headers_last_wins:
  "\<exists>w. render_html_worksheet text child = Inr w
     \<and> (lines_with ''TITLE'' (text_lines text) \<noteq> [] \<longrightarrow>
          title w = header_value (last (lines_with ''TITLE'' (text_lines text))))
     \<and> (lines_with ''INSTRUCTIONS'' (text_lines text) \<noteq> [] \<longrightarrow>
          instructions w =
            (let v = header_value (last (lines_with ''INSTRUCTIONS'' (text_lines text)))
             in if v = [] then default_instructions else v))
     \<and> (lines_with ''PARENT TIPS'' (text_lines text) \<noteq> [] \<longrightarrow>
          tips w =
            (let v = header_value (last (lines_with ''PARENT TIPS'' (text_lines text)))
             in if v = [] then default_tips else v))
     \<and> (\<forall>l. header_value l =
            (if CHR '':'' \<in> set l then strip (text_after_first_colon l) else strip l))
     \<and> (\<forall>s l. scalar_header l \<longrightarrow>
            (\<exists>s'. parse_line s l = Inr s' \<and> current_key s' = current_key s
                 \<and> sections s' = sections s))"
proof -
  from parse_lines_inv [OF parser_inv_initial, of child "text_lines text"]
  obtain s where s: "parse_lines (initial_state child) (text_lines text) = Inr s"
    by blast
  have r: "render_html_worksheet text child = Inr (finish s)"
    using s by (simp add: render_html_worksheet_def)
  from parse_lines_fields [OF s] r show ?thesis
    using header_value_cases scalar_header_keeps_cursor
    by (intro exI [of _ "finish s"]) (simp add: finish_def Let_def)
qed

theorem scalar_headers_last_wins_witness:
  "lines_with ''TITLE'' (text_lines three_headers) \<noteq> []
   \<and> lines_with ''INSTRUCTIONS'' (text_lines three_headers) \<noteq> []
   \<and> lines_with ''PARENT TIPS'' (text_lines three_headers) \<noteq> []
   \<and> scalar_header ''TITLE: First''
   \<and> map_sum id title (render_html_worksheet three_headers ''Landon'') = Inr ''Space Math''
   \<and> map_sum id instructions (render_html_worksheet three_headers ''Landon'') = Inr ''Count slowly''
   \<and> map_sum id tips (render_html_worksheet three_headers ''Landon'') = Inr ''Go slow''
   \<and> (\<exists>s'. parse_line (initial_state ''Landon'') ''TITLE: First'' = Inr s'
          \<and> current_key s' = current_key (initial_state ''Landon'')
          \<and> sections s' = sections (initial_state ''Landon''))"
proof -
  have a: "lines_with ''TITLE'' (text_lines three_headers) = [''TITLE: First'', ''Title:  Space Math'']"
    by code_simp
  have b: "lines_with ''INSTRUCTIONS'' (text_lines three_headers) = [''INSTRUCTIONS: Count slowly'']"
    by code_simp
  have c: "lines_with ''PARENT TIPS'' (text_lines three_headers) = [''PARENT TIPS: Go slow'']"
    by code_simp
  have d: "header_value ''Title:  Space Math'' = ''Space Math''"
    "header_value ''INSTRUCTIONS: Count slowly'' = ''Count slowly''"
    "header_value ''PARENT TIPS: Go slow'' = ''Go slow''"
    by code_simp+
  have e: "scalar_header ''TITLE: First''"
    by code_simp
  from scalar_headers_last_wins [of three_headers "''Landon''"] a b c d e show ?thesis
    by (auto simp: Let_def)
qed

text \<open>
  C6 on the input \<open>PART A / 1.\<close>: the loop of the \<^verbatim>\<open>Generate Worksheet\<close> branch tests the
  line, not the cleaned text, and appends the empty string to Part A, while
  \<^verbatim>\<open>render_html_worksheet\<close> appends nothing, as the claim says.
\<close>

theorem bare_number_question:
  "map_sum id (\<lambda>w. dict_get (sections w) ''Part A'') (generate_worksheet bare_number ''Landon'')
     = Inr (Some [[]]) \<and>
   map_sum id (\<lambda>w. dict_get (sections w) ''Part A'') (render_html_worksheet bare_number ''Landon'')
     = Inr (Some [])"
  by code_simp



section \<open>Properties of the session history store\<close>




text \<open>
  C10. Saving a session id that has no entry in \<^verbatim>\<open>chat_history_store\<close> raises KeyError at
  the lookup, before the file is opened: every file and the store are as they were.
\<close>

theorem save_unknown_session:
  "chat_history_store w session_id = None \<Longrightarrow>
     save_session_history dumps session_id w = Inl (KeyError, w)"
  by (simp add: save_session_history_def)

theorem save_unknown_session_witness:
  "chat_history_store empty_world ''abc123'' = None \<and>
   save_session_history (\<lambda>v. []) ''abc123'' empty_world = Inl (KeyError, empty_world)"
  using save_unknown_session [of empty_world "''abc123''" "\<lambda>v. []"]
  by (simp add: empty_world_def)



text \<open>
  C8, as stated, fails on a file that holds only white space: the file is not empty and no
  JSON decoder accepts its text, yet \<^verbatim>\<open>get_session_history\<close> trims the text first and
  returns a fresh empty history.
\<close>

theorem blank_file_loads_empty:
  "files blank_file_world (history_filename ''worksheet_session'') = Some '' '' \<and>
   '' '' \<noteq> [] \<and> reject_all '' '' = None \<and>
   map_sum fst fst (get_session_history reject_all ''worksheet_session'' blank_file_world) = Inr []"
  by (simp add: blank_file_world_def reject_all_def get_session_history_def remember_def
        strip_def is_space_def)

text \<open>
  C8, amended. For a session id with no entry in \<^verbatim>\<open>chat_history_store\<close>: when the file's
  text, trimmed of surrounding white space, is not empty and the decoder rejects it, the call
  fails with the decoder's error and the store is unchanged (no history is cached); when the
  file is absent, or its trimmed text is empty, the call returns an empty history and caches
  it, the same result in both cases.
\<close>

theorem load_failure_semantics:
  assumes "chat_history_store w session_id = None"
  shows "(\<forall>raw. files w (history_filename session_id) = Some raw \<and> strip raw \<noteq> []
              \<and> loads (strip raw) = None
            \<longrightarrow> get_session_history loads session_id w = Inl (JSONDecodeError, w))
       \<and> (files w (history_filename session_id) = None
            \<or> (\<exists>raw. files w (history_filename session_id) = Some raw \<and> strip raw = [])
            \<longrightarrow> get_session_history loads session_id w
                = Inr ([], w\<lparr>chat_history_store := (chat_history_store w)(session_id \<mapsto> [])\<rparr>))"
  using assms
  by (auto simp: get_session_history_def remember_def Let_def)

theorem load_failure_semantics_witness:
  "chat_history_store blank_file_world ''worksheet_session'' = None \<and>
   get_session_history reject_all ''worksheet_session'' blank_file_world
     = Inr ([], blank_file_world\<lparr>chat_history_store := [''worksheet_session'' \<mapsto> []]\<rparr>)"
proof -
  have a: "chat_history_store blank_file_world ''worksheet_session'' = None"
    by (simp add: blank_file_world_def)
  have b: "files blank_file_world (history_filename ''worksheet_session'') = Some '' ''"
    by (simp add: blank_file_world_def)
  have c: "strip '' '' = []"
    by (simp add: strip_def is_space_def)
  have d: "chat_history_store blank_file_world = Map.empty"
    by (simp add: blank_file_world_def)
  from load_failure_semantics [OF a, of reject_all] a b c d show ?thesis by auto
qed



end
